theory Spec2Isabelle
  imports Main
begin

section \<open>The comment router of \<^verbatim>\<open>src/server/api/router/comment.ts\<close>\<close>

text \<open>
  The router has five procedures: \<^verbatim>\<open>create\<close>, \<^verbatim>\<open>edit\<close>, \<^verbatim>\<open>delete\<close>, \<^verbatim>\<open>like\<close>
  and \<^verbatim>\<open>get\<close>. Each one is a short sequence of statements against the database. The
  database is threaded through explicitly: a mutation takes the database and returns the
  outcome of the call together with the database it leaves behind, so that what an
  error path leaves in the tables is part of the model.
\<close>

subsection \<open>Values\<close>

type_synonym uid = string
type_synonym pid = string
type_synonym cid = int
type_synonym date = int

text \<open>
  JavaScript tests \<^verbatim>\<open>if (parentId)\<close>, \<^verbatim>\<open>commentData?.userId && ...\<close> and
  \<^verbatim>\<open>userId ? ... : ...\<close> by truthiness: \<^verbatim>\<open>undefined\<close> is falsy, and so are the number
  \<^verbatim>\<open>0\<close> and the empty string. A value that may be \<^verbatim>\<open>undefined\<close> is an \<open>option\<close>.
\<close>

definition truthy_number :: "int option \<Rightarrow> bool" where
  "truthy_number v = (case v of None \<Rightarrow> False | Some n \<Rightarrow> n \<noteq> 0)"

definition truthy_string :: "string option \<Rightarrow> bool" where
  "truthy_string v = (case v of None \<Rightarrow> False | Some t \<Rightarrow> t \<noteq> [])"

text \<open>The error codes of \<^verbatim>\<open>TRPCError\<close> that a procedure call can end with.\<close>

datatype trpc_error = FORBIDDEN | NOT_FOUND | UNAUTHORIZED | BAD_REQUEST | INTERNAL_SERVER_ERROR

subsection \<open>Tables\<close>

text \<open>
  Modelled from the spec: the table declarations of \<^verbatim>\<open>@/server/db/schema\<close> are not
  part of the source file. The columns are those of the spec's data model:
  \<^verbatim>\<open>comment(id, userId, postId, parentId, body, createdAt, updatedAt)\<close>,
  \<^verbatim>\<open>like(userId, commentId)\<close>,
  \<^verbatim>\<open>notification(id, notifierId, userId, type, postId, commentId, createdAt)\<close>,
  \<^verbatim>\<open>post(id, userId)\<close> and the author projection \<^verbatim>\<open>(id, name, image, username, email)\<close>.
  The interface \<^verbatim>\<open>ShapedResponse\<close> of the source fixes a comment's id as a number and a
  user's id as a string.
\<close>

record post_row =
  post_id :: pid
  post_userId :: uid

record comment_row =
  comment_id :: cid
  comment_userId :: uid
  comment_postId :: pid
  comment_parentId :: "cid option"
  comment_body :: string
  comment_createdAt :: date
  comment_updatedAt :: date

record like_row =
  like_userId :: uid
  like_commentId :: cid

text \<open>
  Modelled from the spec: the two constants of \<^verbatim>\<open>@/utils/notifications\<close> are not part
  of the source file; the spec has them as two symbolic tags.
\<close>

datatype notification_type = NEW_COMMENT_ON_YOUR_POST | NEW_REPLY_TO_YOUR_COMMENT

record notification_row =
  notification_id :: int
  notification_notifierId :: uid
  notification_userId :: uid
  notification_type :: notification_type
  notification_postId :: pid
  notification_commentId :: cid
  notification_createdAt :: date

record user_row =
  user_id :: uid
  user_name :: string
  user_image :: string
  user_username :: "string option"
  user_email :: "string option"

text \<open>
  The database: the five tables in insertion order, the two sequences that generate the
  ids of comments and notifications (the spec has the ids as generated by the store), and
  the clock that stamps new rows. The mutations reach it through \<^verbatim>\<open>ctx.db\<close> and
  \<^verbatim>\<open>get\<close> through \<^verbatim>\<open>ctx.prisma\<close>; both are clients of the same tables.
\<close>

record db =
  posts :: "post_row list"
  comments :: "comment_row list"
  likes :: "like_row list"
  notifications :: "notification_row list"
  users :: "user_row list"
  comment_seq :: int
  notification_seq :: int
  now :: date

subsection \<open>Statements\<close>

text \<open>\<^verbatim>\<open>db.query.post.findFirst({ where: eq(posts.id, postId) })\<close>\<close>

definition find_first_post :: "db \<Rightarrow> pid \<Rightarrow> post_row option" where
  "find_first_post s postId = find (\<lambda>p. post_id p = postId) (posts s)"

text \<open>\<^verbatim>\<open>db.query.comment.findFirst({ where: eq(comments.id, id) })\<close>\<close>

definition find_first_comment :: "db \<Rightarrow> cid \<Rightarrow> comment_row option" where
  "find_first_comment s i = find (\<lambda>c. comment_id c = i) (comments s)"

text \<open>
  \<^verbatim>\<open>db.insert(comment).values({ userId, postId, body, parentId }).returning()\<close>: the
  store generates the id and the two timestamps, and returns the rows it inserted.
\<close>

definition insert_comment ::
    "db \<Rightarrow> uid \<Rightarrow> pid \<Rightarrow> string \<Rightarrow> cid option \<Rightarrow> comment_row list \<times> db" where
  "insert_comment s userId postId body parentId =
     (let row = \<lparr>comment_id = comment_seq s, comment_userId = userId,
                 comment_postId = postId, comment_parentId = parentId,
                 comment_body = body, comment_createdAt = now s,
                 comment_updatedAt = now s\<rparr>
      in ([row], s\<lparr>comments := comments s @ [row], comment_seq := comment_seq s + 1\<rparr>))"

text \<open>\<^verbatim>\<open>db.insert(notification).values({ notifierId, type, postId, userId, commentId })\<close>\<close>

definition insert_notification ::
    "db \<Rightarrow> uid \<Rightarrow> notification_type \<Rightarrow> pid \<Rightarrow> uid \<Rightarrow> cid \<Rightarrow> db" where
  "insert_notification s notifierId ty postId userId commentId =
     (let row = \<lparr>notification_id = notification_seq s,
                 notification_notifierId = notifierId, notification_userId = userId,
                 notification_type = ty, notification_postId = postId,
                 notification_commentId = commentId, notification_createdAt = now s\<rparr>
      in s\<lparr>notifications := notifications s @ [row],
            notification_seq := notification_seq s + 1\<rparr>)"

text \<open>
  \<^verbatim>\<open>db.update(comment).set({ body }).where(eq(comment.id, id))\<close>, without
  \<^verbatim>\<open>returning()\<close>: the statement's outcome is the driver's result, which carries the
  number of rows it touched and no row.
\<close>

record update_outcome =
  rowCount :: nat

text \<open>
  Modelled from the spec: the declaration of the column \<^verbatim>\<open>updatedAt\<close> is not part of
  the source file. The statement names the column \<^verbatim>\<open>body\<close> only, and the spec has
  \<^verbatim>\<open>updatedAt\<close> ``implicitly refreshed by storage'' on this update: the store stamps
  the rows it updates with its clock.
\<close>

definition update_comment_body :: "db \<Rightarrow> cid \<Rightarrow> string \<Rightarrow> update_outcome \<times> db" where
  "update_comment_body s i body =
     (\<lparr>rowCount = length (filter (\<lambda>c. comment_id c = i) (comments s))\<rparr>,
      s\<lparr>comments :=
          map (\<lambda>c. if comment_id c = i
                   then c\<lparr>comment_body := body, comment_updatedAt := now s\<rparr> else c)
            (comments s)\<rparr>)"

text \<open>\<^verbatim>\<open>db.delete(comment).where(eq(comment.id, id)).returning()\<close>\<close>

definition delete_comment :: "db \<Rightarrow> cid \<Rightarrow> comment_row list \<times> db" where
  "delete_comment s i =
     (filter (\<lambda>c. comment_id c = i) (comments s),
      s\<lparr>comments := filter (\<lambda>c. comment_id c \<noteq> i) (comments s)\<rparr>)"

text \<open>
  \<^verbatim>\<open>db.query.like.findFirst({ where: and(eq(likes.userId, userId),
  eq(likes.commentId, commentId)) })\<close>
\<close>

definition find_first_like :: "db \<Rightarrow> uid \<Rightarrow> cid \<Rightarrow> like_row option" where
  "find_first_like s userId commentId =
     find (\<lambda>l. like_userId l = userId \<and> like_commentId l = commentId) (likes s)"

text \<open>
  \<^verbatim>\<open>db.delete(like).where(and(eq(like.userId, userId),
  eq(like.commentId, commentId))).returning()\<close>
\<close>

definition delete_like :: "db \<Rightarrow> uid \<Rightarrow> cid \<Rightarrow> like_row list \<times> db" where
  "delete_like s userId commentId =
     (filter (\<lambda>l. like_userId l = userId \<and> like_commentId l = commentId) (likes s),
      s\<lparr>likes :=
          filter (\<lambda>l. \<not> (like_userId l = userId \<and> like_commentId l = commentId)) (likes s)\<rparr>)"

text \<open>\<^verbatim>\<open>db.insert(like).values({ commentId, userId }).returning()\<close>\<close>

definition insert_like :: "db \<Rightarrow> cid \<Rightarrow> uid \<Rightarrow> like_row list \<times> db" where
  "insert_like s commentId userId =
     (let row = \<lparr>like_userId = userId, like_commentId = commentId\<rparr>
      in ([row], s\<lparr>likes := likes s @ [row]\<rparr>))"

text \<open>
  The array destructuring \<^verbatim>\<open>const [x] = rows\<close>: the first row, \<^verbatim>\<open>undefined\<close> when
  there is none.
\<close>

definition first_of :: "'a list \<Rightarrow> 'a option" where
  "first_of rows = (case rows of [] \<Rightarrow> None | x # _ \<Rightarrow> Some x)"

subsection \<open>\<^verbatim>\<open>create\<close>\<close>

text \<open>
  The post's owner is looked up before the comment is inserted, the parent comment
  after it. Reading \<^verbatim>\<open>createdComment.id\<close> when the insert returned no row would be
  a \<^verbatim>\<open>TypeError\<close>, which the procedure layer reports as an internal server error.
\<close>

definition create ::
    "db \<Rightarrow> uid \<Rightarrow> string \<Rightarrow> pid \<Rightarrow> cid option \<Rightarrow> (trpc_error + cid) \<times> db" where
  "create s userId body postId parentId =
     (let postData = find_first_post s postId;
          postOwnerId = map_option post_userId postData;
          (returned, s1) = insert_comment s userId postId body parentId
      in case first_of returned of
           None \<Rightarrow> (Inl INTERNAL_SERVER_ERROR, s1)
         | Some createdComment \<Rightarrow>
             (let s2 =
                (if truthy_number parentId then
                   (let commentData = find_first_comment s1 (the parentId);
                        parentOwnerId = map_option comment_userId commentData
                    in if truthy_string parentOwnerId \<and> parentOwnerId \<noteq> Some userId
                       then insert_notification s1 userId NEW_REPLY_TO_YOUR_COMMENT postId
                              (the parentOwnerId) (comment_id createdComment)
                       else s1)
                 else s1);
                  s3 =
                (if \<not> truthy_number parentId \<and> truthy_string postOwnerId
                      \<and> postOwnerId \<noteq> Some userId
                 then insert_notification s2 userId NEW_COMMENT_ON_YOUR_POST postId
                        (the postOwnerId) (comment_id createdComment)
                 else s2)
              in (Inr (comment_id createdComment), s3)))"

subsection \<open>\<^verbatim>\<open>edit\<close>\<close>

text \<open>
  The procedure returns either the comment it found (when the body is the same) or the
  outcome of the update statement.
\<close>

datatype edit_result = Current_Comment comment_row | Updated_Comment update_outcome

definition edit :: "db \<Rightarrow> uid \<Rightarrow> cid \<Rightarrow> string \<Rightarrow> (trpc_error + edit_result) \<times> db" where
  "edit s sessionUserId i body =
     (let currentComment = find_first_comment s i
      in if map_option comment_userId currentComment \<noteq> Some sessionUserId
         then (Inl FORBIDDEN, s)
         else case currentComment of
           None \<Rightarrow> (Inl INTERNAL_SERVER_ERROR, s)
         | Some cur \<Rightarrow>
             if comment_body cur = body then (Inr (Current_Comment cur), s)
             else (let (updatedComment, s1) = update_comment_body s i body
                   in (Inr (Updated_Comment updatedComment), s1)))"

subsection \<open>\<^verbatim>\<open>delete\<close>\<close>

definition delete :: "db \<Rightarrow> uid \<Rightarrow> cid \<Rightarrow> (trpc_error + cid) \<times> db" where
  "delete s sessionUserId i =
     (let currentComment = find_first_comment s i
      in if map_option comment_userId currentComment \<noteq> Some sessionUserId
         then (Inl FORBIDDEN, s)
         else (let (returned, s1) = delete_comment s i
               in case first_of returned of
                    None \<Rightarrow> (Inl INTERNAL_SERVER_ERROR, s1)
                  | Some deletedComment \<Rightarrow> (Inr (comment_id deletedComment), s1)))"

subsection \<open>\<^verbatim>\<open>like\<close>\<close>

definition like :: "db \<Rightarrow> uid \<Rightarrow> cid \<Rightarrow> (trpc_error + like_row option) \<times> db" where
  "like s userId commentId =
     (let commentLiked = find_first_like s userId commentId;
          (returned, s1) =
            (if commentLiked \<noteq> None then delete_like s userId commentId
             else insert_like s commentId userId)
      in (Inr (first_of returned), s1))"

subsection \<open>\<^verbatim>\<open>get\<close>\<close>

text \<open>
  The \<^verbatim>\<open>select\<close> argument of the query is a nest of objects: each one spreads
  \<^verbatim>\<open>SELECT_CHILD_CONFIG\<close> and all but the innermost add
  \<^verbatim>\<open>children: { select: ... }\<close>.
\<close>

datatype comment_select = Select_Child_Config | Select_Children comment_select

text \<open>The literal that the procedure passes: six \<^verbatim>\<open>children\<close> keys, one inside the other.\<close>

definition GET_SELECT :: comment_select where
  "GET_SELECT =
     Select_Children (Select_Children (Select_Children
       (Select_Children (Select_Children (Select_Children Select_Child_Config)))))"

text \<open>
  What the query returns for one comment: the scalar columns, \<^verbatim>\<open>_count.likes\<close>, the
  author, the \<^verbatim>\<open>userId\<close> of the selected like rows, and the \<^verbatim>\<open>children\<close> key when
  the selection has one.
\<close>

datatype raw_comment = Raw_Comment
  (raw_id: cid) (raw_body: string) (raw_createdAt: date) (raw_updatedAt: date)
  (raw_count_likes: nat) (raw_user: "user_row option") (raw_likes: "uid list")
  (raw_children: "raw_comment list option")

text \<open>
  \<^verbatim>\<open>likes: { where: { ...(userId ? { userId } : {}) }, select: { userId: true } }\<close>: the
  like rows of the comment, restricted to the caller's when the caller's id is truthy.
\<close>

definition selected_likes :: "db \<Rightarrow> uid option \<Rightarrow> comment_row \<Rightarrow> uid list" where
  "selected_likes s userId c =
     map like_userId
       (filter (\<lambda>l. like_commentId l = comment_id c
                   \<and> (if truthy_string userId then Some (like_userId l) = userId else True))
          (likes s))"

definition count_likes :: "db \<Rightarrow> comment_row \<Rightarrow> nat" where
  "count_likes s c = length (filter (\<lambda>l. like_commentId l = comment_id c) (likes s))"

definition comment_user :: "db \<Rightarrow> comment_row \<Rightarrow> user_row option" where
  "comment_user s c = find (\<lambda>u. user_id u = comment_userId c) (users s)"

text \<open>The relation \<^verbatim>\<open>children\<close>: the comments whose \<^verbatim>\<open>parentId\<close> is this comment's id.\<close>

definition comment_children :: "db \<Rightarrow> comment_row \<Rightarrow> comment_row list" where
  "comment_children s c =
     filter (\<lambda>d. comment_parentId d = Some (comment_id c)) (comments s)"

primrec select_comment ::
    "db \<Rightarrow> uid option \<Rightarrow> comment_select \<Rightarrow> comment_row \<Rightarrow> raw_comment" where
  "select_comment s userId Select_Child_Config c =
     Raw_Comment (comment_id c) (comment_body c) (comment_createdAt c) (comment_updatedAt c)
       (count_likes s c) (comment_user s c) (selected_likes s userId c) None"
| "select_comment s userId (Select_Children sel) c =
     Raw_Comment (comment_id c) (comment_body c) (comment_createdAt c) (comment_updatedAt c)
       (count_likes s c) (comment_user s c) (selected_likes s userId c)
       (Some (map (select_comment s userId sel) (comment_children s c)))"

text \<open>\<^verbatim>\<open>prisma.comment.count({ where: { postId } })\<close>\<close>

definition comment_count :: "db \<Rightarrow> pid \<Rightarrow> nat" where
  "comment_count s postId = length (filter (\<lambda>c. comment_postId c = postId) (comments s))"

text \<open>
  \<^verbatim>\<open>prisma.comment.findMany({ where: { postId, parentId: null }, select: ...,
  orderBy: { createdAt: "desc" } })\<close>
\<close>

definition comment_findMany :: "db \<Rightarrow> uid option \<Rightarrow> pid \<Rightarrow> comment_select \<Rightarrow> raw_comment list" where
  "comment_findMany s userId postId sel =
     map (select_comment s userId sel)
       (sort_key (\<lambda>c. - comment_createdAt c)
          (filter (\<lambda>c. comment_postId c = postId \<and> comment_parentId c = None) (comments s)))"

text \<open>
  \<^verbatim>\<open>ShapedResponse\<close>, and \<^verbatim>\<open>shapeComments\<close>: the callback of \<^verbatim>\<open>commentsArr.map\<close>
  is \<open>shapeComment\<close>. An array is truthy also when it is empty, so \<^verbatim>\<open>if (children)\<close>
  tests that the key is there.
\<close>

datatype shaped_response = Shaped_Response
  (youLikedThis: bool) (likeCount: nat)
  (shaped_id: cid) (shaped_body: string) (shaped_createdAt: date) (shaped_updatedAt: date)
  (shaped_user: "user_row option")
  (children: "shaped_response list option")

primrec shapeComment :: "uid option \<Rightarrow> raw_comment \<Rightarrow> shaped_response" where
  "shapeComment userId (Raw_Comment i body createdAt updatedAt cnt usr youLikeThis chn) =
     Shaped_Response (list_ex (\<lambda>obj. Some obj = userId) youLikeThis) cnt
       i body createdAt updatedAt usr
       (map_option (map (shapeComment userId)) chn)"

definition shapeComments :: "uid option \<Rightarrow> raw_comment list \<Rightarrow> shaped_response list" where
  "shapeComments userId commentsArr = map (shapeComment userId) commentsArr"

record get_result =
  data :: "shaped_response list"
  count :: nat

definition get :: "db \<Rightarrow> uid option \<Rightarrow> pid \<Rightarrow> trpc_error + get_result" where
  "get s userId postId =
     (let total = comment_count s postId;
          response = comment_findMany s userId postId GET_SELECT;
          comments = shapeComments userId response
      in Inr \<lparr>data = comments, count = total\<rparr>)"

subsection \<open>Vocabulary of the properties\<close>

text \<open>
  The nodes of a returned tree, each with its depth below the top-level comment the
  walk starts from (which is at the depth given).
\<close>

fun nodes_from :: "nat \<Rightarrow> shaped_response \<Rightarrow> (nat \<times> shaped_response) list" where
  "nodes_from k (Shaped_Response y n i b ca ua u chn) =
     (k, Shaped_Response y n i b ca ua u chn) #
       (case chn of None \<Rightarrow> [] | Some xs \<Rightarrow> concat (map (nodes_from (Suc k)) xs))"

definition response_nodes :: "shaped_response list \<Rightarrow> (nat \<times> shaped_response) list" where
  "response_nodes xs = concat (map (nodes_from 0) xs)"

text \<open>
  The nesting level of a stored comment: a comment without parent is at level 0, a
  comment whose \<^verbatim>\<open>parentId\<close> is the id of a stored comment at level \<open>n\<close> is at
  level \<open>n + 1\<close>.
\<close>

inductive level :: "db \<Rightarrow> comment_row \<Rightarrow> nat \<Rightarrow> bool" for s :: db where
  top: "c \<in> set (comments s) \<Longrightarrow> comment_parentId c = None \<Longrightarrow> level s c 0"
| reply: "d \<in> set (comments s) \<Longrightarrow> comment_parentId d = Some (comment_id c) \<Longrightarrow>
          level s c n \<Longrightarrow> level s d (Suc n)"

code_pred level .

text \<open>The number of \<^verbatim>\<open>children\<close> keys that a selection nests.\<close>

primrec select_depth :: "comment_select \<Rightarrow> nat" where
  "select_depth Select_Child_Config = 0"
| "select_depth (Select_Children sel) = Suc (select_depth sel)"

text \<open>
  The row that \<^verbatim>\<open>create\<close> inserts, the database right after that insert, and the
  notification row that a following insert adds.
\<close>

definition created_row :: "db \<Rightarrow> uid \<Rightarrow> string \<Rightarrow> pid \<Rightarrow> cid option \<Rightarrow> comment_row" where
  "created_row s userId body postId parentId =
     \<lparr>comment_id = comment_seq s, comment_userId = userId,
      comment_postId = postId, comment_parentId = parentId,
      comment_body = body, comment_createdAt = now s, comment_updatedAt = now s\<rparr>"

definition with_comment :: "db \<Rightarrow> comment_row \<Rightarrow> db" where
  "with_comment s row = s\<lparr>comments := comments s @ [row], comment_seq := comment_seq s + 1\<rparr>"

definition notification_for ::
    "db \<Rightarrow> uid \<Rightarrow> notification_type \<Rightarrow> pid \<Rightarrow> uid \<Rightarrow> notification_row" where
  "notification_for s notifierId ty postId userId =
     \<lparr>notification_id = notification_seq s,
      notification_notifierId = notifierId, notification_userId = userId,
      notification_type = ty, notification_postId = postId,
      notification_commentId = comment_seq s, notification_createdAt = now s\<rparr>"

subsection \<open>A small database for the examples\<close>

text \<open>
  One post of alice's with two comments: alice's own top-level comment and bob's reply to
  it, which bob has also liked.
\<close>

definition demo_c1 :: comment_row where
  "demo_c1 = \<lparr>comment_id = 1, comment_userId = ''alice'', comment_postId = ''p1'',
     comment_parentId = None, comment_body = ''first'', comment_createdAt = 10,
     comment_updatedAt = 10\<rparr>"

definition demo_c2 :: comment_row where
  "demo_c2 = \<lparr>comment_id = 2, comment_userId = ''bob'', comment_postId = ''p1'',
     comment_parentId = Some 1, comment_body = ''second'', comment_createdAt = 11,
     comment_updatedAt = 11\<rparr>"

definition demo_db :: db where
  "demo_db = \<lparr>posts = [\<lparr>post_id = ''p1'', post_userId = ''alice''\<rparr>],
     comments = [demo_c1, demo_c2],
     likes = [\<lparr>like_userId = ''bob'', like_commentId = 1\<rparr>],
     notifications = [],
     users = [],
     comment_seq = 3, notification_seq = 1, now = 20\<rparr>"

text \<open>
  A thread of eight comments on one post, each the reply to the one before: the first is
  at level 0 and the eighth at level 7.
\<close>

definition chain_row :: "cid \<Rightarrow> cid option \<Rightarrow> comment_row" where
  "chain_row i p = \<lparr>comment_id = i, comment_userId = ''alice'', comment_postId = ''p1'',
     comment_parentId = p, comment_body = ''text'', comment_createdAt = i,
     comment_updatedAt = i\<rparr>"

definition chain_db :: db where
  "chain_db = \<lparr>posts = [\<lparr>post_id = ''p1'', post_userId = ''alice''\<rparr>],
     comments = [chain_row 1 None, chain_row 2 (Some 1), chain_row 3 (Some 2),
       chain_row 4 (Some 3), chain_row 5 (Some 4), chain_row 6 (Some 5),
       chain_row 7 (Some 6), chain_row 8 (Some 7)],
     likes = [],
     notifications = [],
     users = [],
     comment_seq = 9, notification_seq = 1, now = 20\<rparr>"

text \<open>The same eight comments with every \<^verbatim>\<open>parentId\<close> removed: all are top-level.\<close>

definition flat_db :: db where
  "flat_db =
     chain_db\<lparr>comments := map (\<lambda>c. c\<lparr>comment_parentId := None\<rparr>) (comments chain_db)\<rparr>"

section \<open>Properties\<close>

subsection \<open>Facts about the example databases\<close>

lemma demo_find_1: "find_first_comment demo_db 1 = Some demo_c1"
  by (simp add: find_first_comment_def demo_db_def demo_c1_def demo_c2_def)

lemma demo_find_2: "find_first_comment demo_db 2 = Some demo_c2"
  by (simp add: find_first_comment_def demo_db_def demo_c1_def demo_c2_def)

lemma demo_find_post: "find_first_post demo_db ''p1'' = Some \<lparr>post_id = ''p1'', post_userId = ''alice''\<rparr>"
  by (simp add: find_first_post_def demo_db_def)

lemma demo_comments: "comments demo_db = [demo_c1, demo_c2]"
  by (simp add: demo_db_def)

lemma demo_likes: "likes demo_db = [\<lparr>like_userId = ''bob'', like_commentId = 1\<rparr>]"
  by (simp add: demo_db_def)

lemma demo_notifications: "notifications demo_db = []"
  by (simp add: demo_db_def)


lemma demo_ids: "comment_id demo_c1 = 1" "comment_id demo_c2 = 2"
  by (simp_all add: demo_c1_def demo_c2_def)

lemma demo_get_flags:
  "map (\<lambda>(d, n). (d, shaped_id n, youLikedThis n))
     (response_nodes (shapeComments (Some ''bob'')
        (comment_findMany demo_db (Some ''bob'') ''p1'' GET_SELECT)))
   = [(0, 1, True), (1, 2, False)]"
  by (simp add: response_nodes_def shapeComments_def comment_findMany_def
      GET_SELECT_def comment_children_def demo_db_def demo_c1_def demo_c2_def
      selected_likes_def truthy_string_def)

lemma demo_get_flags_anonymous:
  "map (\<lambda>(d, n). (d, shaped_id n, youLikedThis n))
     (response_nodes (shapeComments None (comment_findMany demo_db None ''p1'' GET_SELECT)))
   = [(0, 1, False), (1, 2, False)]"
  by (simp add: response_nodes_def shapeComments_def comment_findMany_def
      GET_SELECT_def comment_children_def demo_db_def demo_c1_def demo_c2_def
      selected_likes_def truthy_string_def)

lemma chain_fields:
  "comment_id (chain_row i p) = i" "comment_parentId (chain_row i p) = p"
  "comment_postId (chain_row i p) = ''p1''" "comment_createdAt (chain_row i p) = i"
  by (simp_all add: chain_row_def)

lemma chain_comments:
  "comments chain_db = [chain_row 1 None, chain_row 2 (Some 1), chain_row 3 (Some 2),
     chain_row 4 (Some 3), chain_row 5 (Some 4), chain_row 6 (Some 5),
     chain_row 7 (Some 6), chain_row 8 (Some 7)]"
  by (simp add: chain_db_def)

lemma chain_children:
  "comment_children chain_db (chain_row 1 None) = [chain_row 2 (Some 1)]"
  "comment_children chain_db (chain_row 2 (Some 1)) = [chain_row 3 (Some 2)]"
  "comment_children chain_db (chain_row 3 (Some 2)) = [chain_row 4 (Some 3)]"
  "comment_children chain_db (chain_row 4 (Some 3)) = [chain_row 5 (Some 4)]"
  "comment_children chain_db (chain_row 5 (Some 4)) = [chain_row 6 (Some 5)]"
  "comment_children chain_db (chain_row 6 (Some 5)) = [chain_row 7 (Some 6)]"
  "comment_children chain_db (chain_row 7 (Some 6)) = [chain_row 8 (Some 7)]"
  by (simp_all add: comment_children_def chain_comments chain_fields)

lemma chain_tops:
  "sort_key (\<lambda>c. - comment_createdAt c)
     (filter (\<lambda>c. comment_postId c = ''p1'' \<and> comment_parentId c = None) (comments chain_db))
   = [chain_row 1 None]"
  by (simp add: chain_comments chain_fields)

lemma chain_get_ids:
  "map (\<lambda>(d, n). (d, shaped_id n))
     (response_nodes (shapeComments None (comment_findMany chain_db None ''p1'' GET_SELECT)))
   = [(0, 1), (1, 2), (2, 3), (3, 4), (4, 5), (5, 6), (6, 7)]"
  by (simp add: response_nodes_def shapeComments_def comment_findMany_def chain_tops
      GET_SELECT_def chain_children chain_fields)

lemma chain_count: "comment_count chain_db ''p1'' = 8"
  by (simp add: comment_count_def chain_comments chain_fields)

lemma flat_postIds:
  "map comment_postId (comments flat_db) = map comment_postId (comments chain_db)"
  by (simp add: flat_db_def comp_def)

lemma chain_distinct: "distinct (map comment_id (comments chain_db))"
  by (simp add: chain_comments chain_fields)

lemma chain_level_7: "level chain_db (chain_row 8 (Some 7)) 7"
proof -
  have m: "\<And>r. r \<in> set (comments chain_db) \<longleftrightarrow>
      r = chain_row 1 None \<or> r = chain_row 2 (Some 1) \<or> r = chain_row 3 (Some 2)
      \<or> r = chain_row 4 (Some 3) \<or> r = chain_row 5 (Some 4) \<or> r = chain_row 6 (Some 5)
      \<or> r = chain_row 7 (Some 6) \<or> r = chain_row 8 (Some 7)"
    by (simp add: chain_comments)
  have l0: "level chain_db (chain_row 1 None) 0"
    by (rule level.top) (simp_all add: m chain_fields)
  have l1: "level chain_db (chain_row 2 (Some 1)) (Suc 0)"
    by (rule level.reply [OF _ _ l0]) (simp_all add: m chain_fields)
  have l2: "level chain_db (chain_row 3 (Some 2)) (Suc (Suc 0))"
    by (rule level.reply [OF _ _ l1]) (simp_all add: m chain_fields)
  have l3: "level chain_db (chain_row 4 (Some 3)) (Suc (Suc (Suc 0)))"
    by (rule level.reply [OF _ _ l2]) (simp_all add: m chain_fields)
  have l4: "level chain_db (chain_row 5 (Some 4)) (Suc (Suc (Suc (Suc 0))))"
    by (rule level.reply [OF _ _ l3]) (simp_all add: m chain_fields)
  have l5: "level chain_db (chain_row 6 (Some 5)) (Suc (Suc (Suc (Suc (Suc 0)))))"
    by (rule level.reply [OF _ _ l4]) (simp_all add: m chain_fields)
  have l6: "level chain_db (chain_row 7 (Some 6)) (Suc (Suc (Suc (Suc (Suc (Suc 0))))))"
    by (rule level.reply [OF _ _ l5]) (simp_all add: m chain_fields)
  have l7: "level chain_db (chain_row 8 (Some 7)) (Suc (Suc (Suc (Suc (Suc (Suc (Suc 0)))))))"
    by (rule level.reply [OF _ _ l6]) (simp_all add: m chain_fields)
  then show ?thesis
    by (simp add: eval_nat_numeral)
qed

subsection \<open>\<^verbatim>\<open>edit\<close> and \<^verbatim>\<open>delete\<close>\<close>

lemma find_first_comment_None:
  "(\<forall>c\<in>set (comments s). comment_id c \<noteq> i) \<Longrightarrow> find_first_comment s i = None"
  by (simp add: find_first_comment_def find_None_iff)

text \<open>
  C6. When the comment that the lookup by id returns has a \<^verbatim>\<open>userId\<close> other than the
  caller's, \<^verbatim>\<open>edit\<close> ends with the error \<^verbatim>\<open>FORBIDDEN\<close> and the database it leaves
  behind is the database it was called on: no comment row, and nothing else, is
  modified.
\<close>

theorem edit_non_owner_forbidden:
  assumes "find_first_comment s i = Some cur" and "comment_userId cur \<noteq> caller"
  shows "edit s caller i body = (Inl FORBIDDEN, s)"
  using assms by (simp add: edit_def)

theorem edit_non_owner_forbidden_witness:
  "find_first_comment demo_db 1 = Some demo_c1 \<and> comment_userId demo_c1 \<noteq> ''bob''
   \<and> edit demo_db ''bob'' 1 ''changed'' = (Inl FORBIDDEN, demo_db)"
proof -
  have f: "find_first_comment demo_db 1 = Some demo_c1"
    by (rule demo_find_1)
  have u: "comment_userId demo_c1 \<noteq> ''bob''"
    by (simp add: demo_c1_def)
  show ?thesis
    using f u edit_non_owner_forbidden [OF f u, of "''changed''"] by simp
qed

text \<open>
  C7. When the caller owns the comment and the new body equals the stored body,
  \<^verbatim>\<open>edit\<close> returns the comment record it read, as it is stored, and the database is
  unchanged: no write is performed.
\<close>

theorem edit_same_body_no_write:
  assumes "find_first_comment s i = Some cur" and "comment_userId cur = caller"
    and "comment_body cur = body"
  shows "edit s caller i body = (Inr (Current_Comment cur), s)"
  using assms by (simp add: edit_def)

theorem edit_same_body_no_write_witness:
  "find_first_comment demo_db 1 = Some demo_c1 \<and> comment_userId demo_c1 = ''alice''
   \<and> comment_body demo_c1 = ''first''
   \<and> edit demo_db ''alice'' 1 ''first'' = (Inr (Current_Comment demo_c1), demo_db)"
proof -
  have f: "find_first_comment demo_db 1 = Some demo_c1"
    by (rule demo_find_1)
  have u: "comment_userId demo_c1 = ''alice''"
    by (simp add: demo_c1_def)
  have b: "comment_body demo_c1 = ''first''"
    by (simp add: demo_c1_def)
  show ?thesis
    using f u b edit_same_body_no_write [OF f u b] by simp
qed

text \<open>
  C9. When the caller owns the comment and the new body differs from the stored body,
  the one column that \<^verbatim>\<open>edit\<close> sets on the rows with that id is \<^verbatim>\<open>body\<close>; the store
  refreshes \<^verbatim>\<open>updatedAt\<close> of those rows, and every other column of those rows, every
  other row and every other table are as before. What \<^verbatim>\<open>edit\<close> returns is the outcome
  of the update statement (the count of rows touched), never a comment row, neither
  the one read before nor one read back after the update.
\<close>

theorem edit_new_body_update:
  assumes "find_first_comment s i = Some cur" and "comment_userId cur = caller"
    and "comment_body cur \<noteq> body"
  shows "\<exists>out. edit s caller i body =
           (Inr (Updated_Comment out),
            s\<lparr>comments :=
                map (\<lambda>c. if comment_id c = i
                         then c\<lparr>comment_body := body, comment_updatedAt := now s\<rparr> else c)
                  (comments s)\<rparr>)
         \<and> rowCount out = length (filter (\<lambda>c. comment_id c = i) (comments s))
         \<and> (\<forall>c. fst (edit s caller i body) \<noteq> Inr (Current_Comment c))"
  using assms by (simp add: edit_def update_comment_body_def)

theorem edit_new_body_update_witness:
  "find_first_comment demo_db 1 = Some demo_c1 \<and> comment_userId demo_c1 = ''alice''
   \<and> comment_body demo_c1 \<noteq> ''changed''
   \<and> (\<exists>out. edit demo_db ''alice'' 1 ''changed'' =
        (Inr (Updated_Comment out),
         demo_db\<lparr>comments :=
           [demo_c1\<lparr>comment_body := ''changed'', comment_updatedAt := 20\<rparr>, demo_c2]\<rparr>)
       \<and> rowCount out = 1)"
proof -
  have f: "find_first_comment demo_db 1 = Some demo_c1"
    by (rule demo_find_1)
  have u: "comment_userId demo_c1 = ''alice''"
    by (simp add: demo_c1_def)
  have b: "comment_body demo_c1 \<noteq> ''changed''"
    by (simp add: demo_c1_def)
  have n: "now demo_db = 20"
    by (simp add: demo_db_def)
  from edit_new_body_update [OF f u b] obtain out where
    "edit demo_db ''alice'' 1 ''changed'' =
       (Inr (Updated_Comment out),
        demo_db\<lparr>comments :=
          map (\<lambda>c. if comment_id c = 1
                   then c\<lparr>comment_body := ''changed'', comment_updatedAt := now demo_db\<rparr>
                   else c)
            (comments demo_db)\<rparr>)"
    and "rowCount out = length (filter (\<lambda>c. comment_id c = 1) (comments demo_db))"
    by (elim exE conjE)
  then have "edit demo_db ''alice'' 1 ''changed'' =
        (Inr (Updated_Comment out),
         demo_db\<lparr>comments :=
           [demo_c1\<lparr>comment_body := ''changed'', comment_updatedAt := 20\<rparr>, demo_c2]\<rparr>)
       \<and> rowCount out = 1"
    by (simp add: demo_comments demo_ids n)
  then have "\<exists>out. edit demo_db ''alice'' 1 ''changed'' =
        (Inr (Updated_Comment out),
         demo_db\<lparr>comments :=
           [demo_c1\<lparr>comment_body := ''changed'', comment_updatedAt := 20\<rparr>, demo_c2]\<rparr>)
       \<and> rowCount out = 1"
    by (rule exI)
  with f u b show ?thesis
    by (intro conjI)
qed

text \<open>
  C10. When no stored comment has the id given, \<^verbatim>\<open>edit\<close> and \<^verbatim>\<open>delete\<close> both end
  with the error \<^verbatim>\<open>FORBIDDEN\<close> (the \<^verbatim>\<open>userId\<close> of the absent record is
  \<^verbatim>\<open>undefined\<close>, which differs from the caller's id), not with \<^verbatim>\<open>NOT_FOUND\<close>, and
  the database is unchanged.
\<close>

theorem edit_delete_missing_forbidden:
  assumes "\<forall>c\<in>set (comments s). comment_id c \<noteq> i"
  shows "edit s caller i body = (Inl FORBIDDEN, s)
         \<and> delete s caller i = (Inl FORBIDDEN, s)
         \<and> fst (edit s caller i body) \<noteq> Inl NOT_FOUND
         \<and> fst (delete s caller i) \<noteq> Inl NOT_FOUND"
  using find_first_comment_None [OF assms] by (simp add: edit_def delete_def)

theorem edit_delete_missing_forbidden_witness:
  "7 \<notin> set (map comment_id (comments demo_db))
   \<and> edit demo_db ''alice'' 7 ''changed'' = (Inl FORBIDDEN, demo_db)
   \<and> delete demo_db ''alice'' 7 = (Inl FORBIDDEN, demo_db)"
proof -
  have h: "\<forall>c\<in>set (comments demo_db). comment_id c \<noteq> 7"
    by (simp add: demo_comments demo_ids)
  show ?thesis
    using edit_delete_missing_forbidden [OF h, of "''alice''" "''changed''"]
    by (simp add: demo_comments demo_ids)
qed

subsection \<open>\<^verbatim>\<open>like\<close>\<close>

lemma like_row_eq:
  "(like_userId l = u \<and> like_commentId l = c) = (l = \<lparr>like_userId = u, like_commentId = c\<rparr>)"
  for l :: like_row
  by (cases l) auto

lemma first_of_filter_eq:
  "x \<in> set xs \<Longrightarrow> first_of (filter (\<lambda>l. l = x) xs) = Some x"
  by (induction xs) (auto simp: first_of_def)

lemma find_first_like_None_iff:
  "(find_first_like s u c = None) = (\<lparr>like_userId = u, like_commentId = c\<rparr> \<notin> set (likes s))"
  by (auto simp: find_first_like_def like_row_eq find_None_iff)

lemma like_present:
  assumes "\<lparr>like_userId = u, like_commentId = c\<rparr> \<in> set (likes s)"
  shows "like s u c =
    (Inr (Some \<lparr>like_userId = u, like_commentId = c\<rparr>),
     s\<lparr>likes := filter (\<lambda>l. l \<noteq> \<lparr>like_userId = u, like_commentId = c\<rparr>) (likes s)\<rparr>)"
proof -
  have f: "find_first_like s u c \<noteq> None"
    using assms by (simp add: find_first_like_None_iff)
  have d: "delete_like s u c =
     (filter (\<lambda>l. l = \<lparr>like_userId = u, like_commentId = c\<rparr>) (likes s),
      s\<lparr>likes := filter (\<lambda>l. l \<noteq> \<lparr>like_userId = u, like_commentId = c\<rparr>) (likes s)\<rparr>)"
    by (simp add: delete_like_def like_row_eq)
  show ?thesis
    unfolding like_def using f by (simp add: d first_of_filter_eq [OF assms])
qed

lemma like_absent:
  assumes "\<lparr>like_userId = u, like_commentId = c\<rparr> \<notin> set (likes s)"
  shows "like s u c =
    (Inr (Some \<lparr>like_userId = u, like_commentId = c\<rparr>),
     s\<lparr>likes := likes s @ [\<lparr>like_userId = u, like_commentId = c\<rparr>]\<rparr>)"
proof -
  have f: "find_first_like s u c = None"
    using assms by (simp add: find_first_like_None_iff)
  show ?thesis
    unfolding like_def by (simp add: f insert_like_def first_of_def Let_def)
qed

lemma like_distinct: "distinct (likes s) \<Longrightarrow> distinct (likes (snd (like s u c)))"
  by (cases "\<lparr>like_userId = u, like_commentId = c\<rparr> \<in> set (likes s)")
     (simp_all add: like_present like_absent)

lemma like_calls_distinct:
  "distinct (likes s) \<Longrightarrow>
   distinct (likes (foldl (\<lambda>t (u, c). snd (like t u c)) s calls))"
  by (induction calls arbitrary: s) (auto simp: like_distinct)

lemma like_twice:
  "\<exists>ls. snd (like (snd (like s u c)) u c) = s\<lparr>likes := ls\<rparr> \<and> set ls = set (likes s)
        \<and> (\<lparr>like_userId = u, like_commentId = c\<rparr> \<notin> set (likes s) \<longrightarrow> ls = likes s)"
proof (cases "\<lparr>like_userId = u, like_commentId = c\<rparr> \<in> set (likes s)")
  case True
  then show ?thesis
    by (auto simp add: like_present like_absent)
next
  case False
  then have "filter (\<lambda>l. l \<noteq> \<lparr>like_userId = u, like_commentId = c\<rparr>) (likes s) = likes s"
    by (auto simp add: filter_id_conv)
  with False show ?thesis
    by (simp add: like_present like_absent)
qed

text \<open>
  C3. \<^verbatim>\<open>like\<close> toggles. When the table holds a like row of the caller for the comment,
  every such row is deleted and the deleted record is returned; otherwise one row is
  inserted and the created record is returned. Neither case raises an error or touches
  another table. A table without duplicate rows stays without duplicates, after one call
  and after any sequence of calls by any users on any comments. Two consecutive calls
  by the same user on the same comment leave the same set of like rows as before (and
  the very same table when the user had not liked the comment).
\<close>

theorem like_toggle:
  "(\<lparr>like_userId = caller, like_commentId = commentId\<rparr> \<in> set (likes s) \<longrightarrow>
      like s caller commentId =
        (Inr (Some \<lparr>like_userId = caller, like_commentId = commentId\<rparr>),
         s\<lparr>likes := filter (\<lambda>l. l \<noteq> \<lparr>like_userId = caller, like_commentId = commentId\<rparr>)
                       (likes s)\<rparr>))
   \<and> (\<lparr>like_userId = caller, like_commentId = commentId\<rparr> \<notin> set (likes s) \<longrightarrow>
      like s caller commentId =
        (Inr (Some \<lparr>like_userId = caller, like_commentId = commentId\<rparr>),
         s\<lparr>likes := likes s @ [\<lparr>like_userId = caller, like_commentId = commentId\<rparr>]\<rparr>))
   \<and> (distinct (likes s) \<longrightarrow> distinct (likes (snd (like s caller commentId))))
   \<and> (distinct (likes s) \<longrightarrow>
        distinct (likes (foldl (\<lambda>t (u, c). snd (like t u c)) s calls)))
   \<and> (\<exists>ls. snd (like (snd (like s caller commentId)) caller commentId) = s\<lparr>likes := ls\<rparr>
         \<and> set ls = set (likes s)
         \<and> (\<lparr>like_userId = caller, like_commentId = commentId\<rparr> \<notin> set (likes s)
              \<longrightarrow> ls = likes s))"
  by (intro conjI impI;
      (erule like_present | erule like_absent | erule like_distinct
       | erule like_calls_distinct | rule like_twice))

theorem like_toggle_witness:
  "\<lparr>like_userId = ''bob'', like_commentId = 1\<rparr> \<in> set (likes demo_db)
   \<and> \<lparr>like_userId = ''alice'', like_commentId = 2\<rparr> \<notin> set (likes demo_db)
   \<and> distinct (likes demo_db)
   \<and> like demo_db ''bob'' 1 =
       (Inr (Some \<lparr>like_userId = ''bob'', like_commentId = 1\<rparr>), demo_db\<lparr>likes := []\<rparr>)
   \<and> like demo_db ''alice'' 2 =
       (Inr (Some \<lparr>like_userId = ''alice'', like_commentId = 2\<rparr>),
        demo_db\<lparr>likes := [\<lparr>like_userId = ''bob'', like_commentId = 1\<rparr>,
                           \<lparr>like_userId = ''alice'', like_commentId = 2\<rparr>]\<rparr>)
   \<and> distinct (likes (snd (like demo_db ''bob'' 1)))
   \<and> distinct (likes (foldl (\<lambda>t (u, c). snd (like t u c)) demo_db
        [(''bob'', 1), (''bob'', 1), (''alice'', 2)]))
   \<and> set (likes (snd (like (snd (like demo_db ''bob'' 1)) ''bob'' 1))) = set (likes demo_db)"
proof -
  have m: "\<lparr>like_userId = ''bob'', like_commentId = 1\<rparr> \<in> set (likes demo_db)"
    by (simp add: demo_likes)
  have m': "\<lparr>like_userId = ''alice'', like_commentId = 2\<rparr> \<notin> set (likes demo_db)"
    by (simp add: demo_likes)
  have d: "distinct (likes demo_db)"
    by (simp add: demo_likes)
  have f: "filter (\<lambda>l. l \<noteq> \<lparr>like_userId = ''bob'', like_commentId = 1\<rparr>) (likes demo_db) = []"
    by (simp add: demo_likes)
  note t = like_toggle [of "''bob''" 1 demo_db "[(''bob'', 1), (''bob'', 1), (''alice'', 2)]"]
  note t' = like_toggle [of "''alice''" 2 demo_db "[]"]
  from t m have a: "like demo_db ''bob'' 1 =
       (Inr (Some \<lparr>like_userId = ''bob'', like_commentId = 1\<rparr>),
        demo_db\<lparr>likes := filter (\<lambda>l. l \<noteq> \<lparr>like_userId = ''bob'', like_commentId = 1\<rparr>)
          (likes demo_db)\<rparr>)"
    by (elim conjE) (erule mp)
  from t' m' have i: "like demo_db ''alice'' 2 =
       (Inr (Some \<lparr>like_userId = ''alice'', like_commentId = 2\<rparr>),
        demo_db\<lparr>likes := likes demo_db @ [\<lparr>like_userId = ''alice'', like_commentId = 2\<rparr>]\<rparr>)"
    by (elim conjE) (erule mp)
  from t d have b: "distinct (likes (snd (like demo_db ''bob'' 1)))"
    by (elim conjE) (erule mp)
  from t d have c: "distinct (likes (foldl (\<lambda>t (u, c). snd (like t u c)) demo_db
        [(''bob'', 1), (''bob'', 1), (''alice'', 2)]))"
    by (elim conjE) (erule mp)
  from t obtain ls where
    e: "snd (like (snd (like demo_db ''bob'' 1)) ''bob'' 1) = demo_db\<lparr>likes := ls\<rparr>"
      "set ls = set (likes demo_db)"
    by (elim conjE exE)
  from e have g:
    "set (likes (snd (like (snd (like demo_db ''bob'' 1)) ''bob'' 1))) = set (likes demo_db)"
    by simp
  from a have a': "like demo_db ''bob'' 1 =
       (Inr (Some \<lparr>like_userId = ''bob'', like_commentId = 1\<rparr>), demo_db\<lparr>likes := []\<rparr>)"
    by (simp only: f)
  from i have i': "like demo_db ''alice'' 2 =
       (Inr (Some \<lparr>like_userId = ''alice'', like_commentId = 2\<rparr>),
        demo_db\<lparr>likes := [\<lparr>like_userId = ''bob'', like_commentId = 1\<rparr>,
                           \<lparr>like_userId = ''alice'', like_commentId = 2\<rparr>]\<rparr>)"
    by (simp add: demo_likes)
  from m m' d a' i' b c g show ?thesis
    by (intro conjI)
qed

subsection \<open>\<^verbatim>\<open>get\<close>\<close>

lemma select_depth_GET_SELECT: "select_depth GET_SELECT = 6"
  by (simp add: GET_SELECT_def)

lemma level_stored: "level s c n \<Longrightarrow> c \<in> set (comments s)"
  by (erule level.cases) auto

lemma level_unique:
  assumes "distinct (map comment_id (comments s))"
  shows "level s c n \<Longrightarrow> level s c m \<Longrightarrow> n = m"
proof (induction arbitrary: m rule: level.induct)
  case (top c)
  from top.prems top.hyps show ?case
    by (cases rule: level.cases) auto
next
  case (reply d c n)
  from reply.prems show ?case
  proof (cases rule: level.cases)
    case top
    with reply.hyps show ?thesis by simp
  next
    case (reply c' m')
    from reply(3) reply.hyps(2) have "comment_id c' = comment_id c" by simp
    moreover have "c \<in> set (comments s)" "c' \<in> set (comments s)"
      using reply.hyps(3) reply(4) by (auto dest: level_stored)
    ultimately have "c' = c"
      using assms by (auto simp: distinct_map inj_on_def)
    with reply(4) reply.IH reply(1) show ?thesis by auto
  qed
qed

lemma liked_iff:
  "list_ex (\<lambda>obj. Some obj = u) (selected_likes s u row) =
     (\<exists>l\<in>set (likes s). Some (like_userId l) = u \<and> like_commentId l = comment_id row)"
  by (auto simp: selected_likes_def list_ex_iff)

text \<open>
  Every node of the tree selected and shaped for a comment at level \<open>k\<close> comes from a
  stored comment at the node's depth, and no node is deeper than the selection nests.
\<close>

lemma nodes_of_selected:
  assumes "(d, n) \<in> set (nodes_from k (shapeComment u (select_comment s u sel c)))"
    and "level s c k"
  shows "d \<le> k + select_depth sel \<and>
         (\<exists>row. level s row d \<and> shaped_id n = comment_id row \<and>
            youLikedThis n = list_ex (\<lambda>obj. Some obj = u) (selected_likes s u row))"
  using assms
proof (induction sel arbitrary: c k)
  case Select_Child_Config
  then show ?case by auto
next
  case (Select_Children sel)
  from Select_Children.prems(1) consider
    (root) "d = k" "shaped_id n = comment_id c"
      "youLikedThis n = list_ex (\<lambda>obj. Some obj = u) (selected_likes s u c)"
  | (child) ch where "ch \<in> set (comment_children s c)"
      "(d, n) \<in> set (nodes_from (Suc k) (shapeComment u (select_comment s u sel ch)))"
    by auto
  then show ?case
  proof cases
    case root
    with Select_Children.prems(2) show ?thesis by auto
  next
    case child
    have "level s ch (Suc k)"
      using child(1) Select_Children.prems(2)
      by (auto simp: comment_children_def intro: level.reply)
    from Select_Children.IH [OF child(2) this] show ?thesis by auto
  qed
qed

lemma get_Inr:
  "get s u p =
     Inr \<lparr>data = shapeComments u (comment_findMany s u p GET_SELECT),
          count = comment_count s p\<rparr>"
  by (simp add: get_def)

lemma get_nodes:
  assumes "(d, n) \<in> set (response_nodes (shapeComments u (comment_findMany s u p GET_SELECT)))"
  shows "d \<le> 6 \<and>
         (\<exists>row. level s row d \<and> shaped_id n = comment_id row \<and>
            youLikedThis n = list_ex (\<lambda>obj. Some obj = u) (selected_likes s u row))"
proof -
  from assms obtain c where c: "c \<in> set (comments s)" "comment_parentId c = None"
    and dn: "(d, n) \<in> set (nodes_from 0 (shapeComment u (select_comment s u GET_SELECT c)))"
    by (auto simp: response_nodes_def shapeComments_def comment_findMany_def)
  from c have "level s c 0" by (rule level.top)
  from nodes_of_selected [OF dn this] show ?thesis
    by (simp add: select_depth_GET_SELECT)
qed

lemma get_nodes_liked:
  assumes "(d, n) \<in> set (response_nodes (shapeComments u (comment_findMany s u p GET_SELECT)))"
  shows "youLikedThis n =
     (\<exists>l\<in>set (likes s). Some (like_userId l) = u \<and> like_commentId l = shaped_id n)"
proof -
  from get_nodes [OF assms] obtain row where "shaped_id n = comment_id row"
    "youLikedThis n = list_ex (\<lambda>obj. Some obj = u) (selected_likes s u row)"
    by blast
  then show ?thesis
    by (simp add: liked_iff)
qed

lemma get_nodes_beyond:
  assumes "distinct (map comment_id (comments s))" and "level s row k" and "6 < k"
  shows "comment_id row \<notin>
     set (map (\<lambda>(d, n). shaped_id n)
       (response_nodes (shapeComments u (comment_findMany s u p GET_SELECT))))"
proof
  assume "comment_id row \<in>
     set (map (\<lambda>(d, n). shaped_id n)
       (response_nodes (shapeComments u (comment_findMany s u p GET_SELECT))))"
  then obtain d n where
    dn: "(d, n) \<in> set (response_nodes (shapeComments u (comment_findMany s u p GET_SELECT)))"
    and i: "shaped_id n = comment_id row"
    by auto
  from get_nodes [OF dn] obtain row' where d: "d \<le> 6" and l: "level s row' d"
    and i': "shaped_id n = comment_id row'"
    by blast
  have "row' \<in> set (comments s)" "row \<in> set (comments s)"
    using l assms(2) by (auto dest: level_stored)
  with i i' assms(1) have "row' = row"
    by (auto simp: distinct_map inj_on_def)
  with l assms(2) have "d = k"
    by (auto dest: level_unique [OF assms(1)])
  with d assms(3) show False by simp
qed

lemma comment_count_postIds:
  "comment_count s p = length (filter (\<lambda>x. x = p) (map comment_postId (comments s)))"
  by (simp add: comment_count_def filter_map comp_def)

text \<open>
  C4. The \<^verbatim>\<open>count\<close> that \<^verbatim>\<open>get\<close> returns is the number of comment rows whose
  \<^verbatim>\<open>postId\<close> is the one asked for. No other column takes part: two databases whose
  comment tables have the same \<^verbatim>\<open>postId\<close> column give the same count, whatever the
  \<^verbatim>\<open>parentId\<close> column (the nesting) is in either, and whoever asks. The witness is the
  thread of eight comments: the count is 8, the data holds 7 nodes.
\<close>

theorem get_count_every_depth:
  "\<exists>r. get s userId postId = Inr r
     \<and> count r = length (filter (\<lambda>c. comment_postId c = postId) (comments s))
     \<and> (\<forall>s' userId'. map comment_postId (comments s') = map comment_postId (comments s)
           \<longrightarrow> (\<exists>r'. get s' userId' postId = Inr r' \<and> count r' = count r))"
  by (simp add: get_Inr comment_count_postIds) (simp add: filter_map comp_def)

theorem get_count_every_depth_witness:
  "(\<exists>r. get chain_db None ''p1'' = Inr r \<and> count r = 8
      \<and> length (response_nodes (data r)) = 7)
   \<and> (\<exists>r'. get flat_db (Some ''bob'') ''p1'' = Inr r' \<and> count r' = 8)"
proof -
  from get_count_every_depth [of chain_db None "''p1''"] obtain r where
    r: "get chain_db None ''p1'' = Inr r"
    and c: "count r = length (filter (\<lambda>c. comment_postId c = ''p1'') (comments chain_db))"
    and e: "\<forall>s' userId'. map comment_postId (comments s') = map comment_postId (comments chain_db)
           \<longrightarrow> (\<exists>r'. get s' userId' ''p1'' = Inr r' \<and> count r' = count r)"
    by (elim exE conjE)
  from c have c8: "count r = 8"
    by (simp add: chain_comments chain_fields)
  from r have
    "data r = shapeComments None (comment_findMany chain_db None ''p1'' GET_SELECT)"
    by (auto simp add: get_Inr)
  then have "length (response_nodes (data r)) = 7"
    using arg_cong [OF chain_get_ids, of length] by simp
  with r c8 have a: "\<exists>r. get chain_db None ''p1'' = Inr r \<and> count r = 8
      \<and> length (response_nodes (data r)) = 7"
    by (intro exI [of _ r] conjI)
  from e [rule_format, OF flat_postIds, of "Some ''bob''"] c8
  have b: "\<exists>r'. get flat_db (Some ''bob'') ''p1'' = Inr r' \<and> count r' = 8"
    by simp
  from a b show ?thesis
    by (rule conjI)
qed

text \<open>
  C5. On every node that \<^verbatim>\<open>get\<close> returns, at any depth, \<^verbatim>\<open>youLikedThis\<close> is true
  exactly when the like table holds a row with the caller's id for the comment of that
  node's id. Without a caller id it is false on every node.
\<close>

theorem get_youLikedThis:
  "\<exists>r. get s userId postId = Inr r
     \<and> (\<forall>(d, n)\<in>set (response_nodes (data r)).
           youLikedThis n =
             (\<exists>l\<in>set (likes s). Some (like_userId l) = userId
                \<and> like_commentId l = shaped_id n))
     \<and> (userId = None \<longrightarrow> (\<forall>(d, n)\<in>set (response_nodes (data r)). \<not> youLikedThis n))"
  by (auto simp add: get_Inr get_nodes_liked)

theorem get_youLikedThis_witness:
  "(\<exists>r. get demo_db (Some ''bob'') ''p1'' = Inr r
     \<and> map (\<lambda>(d, n). (d, shaped_id n, youLikedThis n)) (response_nodes (data r))
         = [(0, 1, True), (1, 2, False)]
     \<and> list_all (\<lambda>(d, n). youLikedThis n =
            list_ex (\<lambda>l. like_userId l = ''bob'' \<and> like_commentId l = shaped_id n)
              (likes demo_db))
         (response_nodes (data r)))
   \<and> (\<exists>r. get demo_db None ''p1'' = Inr r
     \<and> map (\<lambda>(d, n). (d, shaped_id n, youLikedThis n)) (response_nodes (data r))
         = [(0, 1, False), (1, 2, False)]
     \<and> list_all (\<lambda>(d, n). \<not> youLikedThis n) (response_nodes (data r)))"
proof (rule conjI)
  from get_youLikedThis [of demo_db "Some ''bob''" "''p1''"] obtain r where
    r: "get demo_db (Some ''bob'') ''p1'' = Inr r"
    and y: "\<forall>(d, n)\<in>set (response_nodes (data r)).
           youLikedThis n =
             (\<exists>l\<in>set (likes demo_db). Some (like_userId l) = Some ''bob''
                \<and> like_commentId l = shaped_id n)"
    by blast
  from r have "data r =
      shapeComments (Some ''bob'') (comment_findMany demo_db (Some ''bob'') ''p1'' GET_SELECT)"
    by (auto simp add: get_Inr)
  then have "map (\<lambda>(d, n). (d, shaped_id n, youLikedThis n)) (response_nodes (data r))
         = [(0, 1, True), (1, 2, False)]"
    by (simp only: demo_get_flags)
  moreover from y have "list_all (\<lambda>(d, n). youLikedThis n =
            list_ex (\<lambda>l. like_userId l = ''bob'' \<and> like_commentId l = shaped_id n)
              (likes demo_db))
         (response_nodes (data r))"
    by (simp add: list_all_iff list_ex_iff case_prod_unfold)
  ultimately show "\<exists>r. get demo_db (Some ''bob'') ''p1'' = Inr r
     \<and> map (\<lambda>(d, n). (d, shaped_id n, youLikedThis n)) (response_nodes (data r))
         = [(0, 1, True), (1, 2, False)]
     \<and> list_all (\<lambda>(d, n). youLikedThis n =
            list_ex (\<lambda>l. like_userId l = ''bob'' \<and> like_commentId l = shaped_id n)
              (likes demo_db))
         (response_nodes (data r))"
    using r by (intro exI [of _ r] conjI)
next
  from get_youLikedThis [of demo_db None "''p1''"] obtain r where
    r: "get demo_db None ''p1'' = Inr r"
    and y: "None = (None :: uid option) \<longrightarrow>
      (\<forall>(d, n)\<in>set (response_nodes (data r)). \<not> youLikedThis n)"
    by (elim exE conjE)
  from r have "data r = shapeComments None (comment_findMany demo_db None ''p1'' GET_SELECT)"
    by (auto simp add: get_Inr)
  then have "map (\<lambda>(d, n). (d, shaped_id n, youLikedThis n)) (response_nodes (data r))
         = [(0, 1, False), (1, 2, False)]"
    by (simp only: demo_get_flags_anonymous)
  moreover from y have "list_all (\<lambda>(d, n). \<not> youLikedThis n) (response_nodes (data r))"
    by (simp add: list_all_iff case_prod_unfold)
  ultimately show "\<exists>r. get demo_db None ''p1'' = Inr r
     \<and> map (\<lambda>(d, n). (d, shaped_id n, youLikedThis n)) (response_nodes (data r))
         = [(0, 1, False), (1, 2, False)]
     \<and> list_all (\<lambda>(d, n). \<not> youLikedThis n) (response_nodes (data r))"
    using r by (intro exI [of _ r] conjI)
qed

text \<open>
  C1. \<^verbatim>\<open>get\<close> raises no error, and every node of the data it returns is at depth at
  most 6 below its top-level comment and is the stored comment of that nesting level.
  When the ids of the stored comments are distinct (the id is the table's key), a
  comment stored at a level beyond 6 is absent from the data: its id is the id of no
  node.
\<close>

theorem get_depth_cutoff:
  "\<exists>r. get s userId postId = Inr r
     \<and> (\<forall>(d, n)\<in>set (response_nodes (data r)).
           d \<le> 6 \<and> (\<exists>row. level s row d \<and> comment_id row = shaped_id n))
     \<and> (distinct (map comment_id (comments s)) \<longrightarrow>
          (\<forall>row k. level s row k \<and> 6 < k \<longrightarrow>
             comment_id row \<notin> set (map (\<lambda>(d, n). shaped_id n) (response_nodes (data r)))))"
proof -
  let ?nodes = "response_nodes (shapeComments userId (comment_findMany s userId postId GET_SELECT))"
  have a: "\<forall>(d, n)\<in>set ?nodes. d \<le> 6 \<and> (\<exists>row. level s row d \<and> comment_id row = shaped_id n)"
  proof (clarify, rule conjI)
    fix d n assume dn: "(d, n) \<in> set ?nodes"
    from get_nodes [OF dn] show "d \<le> 6" by simp
    from get_nodes [OF dn] show "\<exists>row. level s row d \<and> comment_id row = shaped_id n"
      by auto
  qed
  have b: "distinct (map comment_id (comments s)) \<longrightarrow>
          (\<forall>row k. level s row k \<and> 6 < k \<longrightarrow>
             comment_id row \<notin> set (map (\<lambda>(d, n). shaped_id n) ?nodes))"
    using get_nodes_beyond by blast
  from a b show ?thesis
    by (simp add: get_Inr)
qed

theorem get_depth_cutoff_witness:
  "distinct (map comment_id (comments chain_db))
   \<and> level chain_db (chain_row 8 (Some 7)) 7
   \<and> (\<exists>r. get chain_db None ''p1'' = Inr r
        \<and> 8 \<notin> set (map (\<lambda>(d, n). shaped_id n) (response_nodes (data r)))
        \<and> map (\<lambda>(d, n). (d, shaped_id n)) (response_nodes (data r))
            = [(0, 1), (1, 2), (2, 3), (3, 4), (4, 5), (5, 6), (6, 7)])"
proof -
  from get_depth_cutoff [of chain_db None "''p1''"] obtain r where
    r: "get chain_db None ''p1'' = Inr r"
    and b: "distinct (map comment_id (comments chain_db)) \<longrightarrow>
          (\<forall>row k. level chain_db row k \<and> 6 < k \<longrightarrow>
             comment_id row \<notin> set (map (\<lambda>(d, n). shaped_id n) (response_nodes (data r))))"
    by blast
  from b chain_distinct
  have "\<forall>row k. level chain_db row k \<and> 6 < k \<longrightarrow>
      comment_id row \<notin> set (map (\<lambda>(d, n). shaped_id n) (response_nodes (data r)))"
    by (rule mp)
  from this [rule_format, of "chain_row 8 (Some 7)" 7] chain_level_7
  have "comment_id (chain_row 8 (Some 7))
      \<notin> set (map (\<lambda>(d, n). shaped_id n) (response_nodes (data r)))"
    by simp
  then have c: "8 \<notin> set (map (\<lambda>(d, n). shaped_id n) (response_nodes (data r)))"
    by (simp add: chain_fields)
  from r have "data r = shapeComments None (comment_findMany chain_db None ''p1'' GET_SELECT)"
    by (auto simp add: get_Inr)
  then have i: "map (\<lambda>(d, n). (d, shaped_id n)) (response_nodes (data r))
            = [(0, 1), (1, 2), (2, 3), (3, 4), (4, 5), (5, 6), (6, 7)]"
    by (simp only: chain_get_ids)
  from r c i have "\<exists>r. get chain_db None ''p1'' = Inr r
        \<and> 8 \<notin> set (map (\<lambda>(d, n). shaped_id n) (response_nodes (data r)))
        \<and> map (\<lambda>(d, n). (d, shaped_id n)) (response_nodes (data r))
            = [(0, 1), (1, 2), (2, 3), (3, 4), (4, 5), (5, 6), (6, 7)]"
    by (intro exI [of _ r] conjI)
  with chain_distinct chain_level_7 show ?thesis
    by (intro conjI)
qed

subsection \<open>\<^verbatim>\<open>create\<close>\<close>

lemma find_append_one:
  "find P (xs @ [x]) =
     (case find P xs of Some y \<Rightarrow> Some y | None \<Rightarrow> if P x then Some x else None)"
  by (induction xs) auto

lemma created_row_fields:
  "comment_id (created_row s u body p par) = comment_seq s"
  "comment_userId (created_row s u body p par) = u"
  "comment_postId (created_row s u body p par) = p"
  "comment_parentId (created_row s u body p par) = par"
  "comment_body (created_row s u body p par) = body"
  by (simp_all add: created_row_def)

lemma notification_for_fields:
  "notification_type (notification_for s u ty p r) = ty"
  "notification_userId (notification_for s u ty p r) = r"
  "notification_notifierId (notification_for s u ty p r) = u"
  "notification_postId (notification_for s u ty p r) = p"
  "notification_commentId (notification_for s u ty p r) = comment_seq s"
  by (simp_all add: notification_for_def)

lemma insert_comment_eq:
  "insert_comment s u p body par =
     ([created_row s u body p par], with_comment s (created_row s u body p par))"
  by (simp add: insert_comment_def created_row_def with_comment_def Let_def)

lemma with_comment_tables:
  "comments (with_comment s row) = comments s @ [row]"
  "notifications (with_comment s row) = notifications s"
  "posts (with_comment s row) = posts s"
  "likes (with_comment s row) = likes s"
  "users (with_comment s row) = users s"
  by (simp_all add: with_comment_def)

lemma find_with_comment:
  "find_first_comment (with_comment s row) q =
   (case find_first_comment s q of
      Some c \<Rightarrow> Some c
    | None \<Rightarrow> if comment_id row = q then Some row else None)"
  by (simp add: find_first_comment_def find_append_one with_comment_def)

lemma insert_notification_with_comment:
  "insert_notification (with_comment s row) u ty p r (comment_seq s) =
   (with_comment s row)\<lparr>notifications := notifications s @ [notification_for s u ty p r],
     notification_seq := notification_seq s + 1\<rparr>"
  by (simp add: insert_notification_def notification_for_def with_comment_def Let_def)

text \<open>
  The procedure on the database it is called on: the parent's owner is read after the
  insert, and at most one of the two notification inserts runs.
\<close>

lemma create_unfold:
  "create s u body p par =
    (Inr (comment_seq s),
     (if truthy_number par then
        (let po = map_option comment_userId
                    (find_first_comment (with_comment s (created_row s u body p par)) (the par))
         in if truthy_string po \<and> po \<noteq> Some u
            then insert_notification (with_comment s (created_row s u body p par)) u
                   NEW_REPLY_TO_YOUR_COMMENT p (the po) (comment_seq s)
            else with_comment s (created_row s u body p par))
      else
        (let po = map_option post_userId (find_first_post s p)
         in if truthy_string po \<and> po \<noteq> Some u
            then insert_notification (with_comment s (created_row s u body p par)) u
                   NEW_COMMENT_ON_YOUR_POST p (the po) (comment_seq s)
            else with_comment s (created_row s u body p par))))"
proof (cases "truthy_number par")
  case True
  then show ?thesis
    unfolding create_def insert_comment_eq
    by (simp add: first_of_def created_row_fields Let_def split del: if_split cong: if_cong)
next
  case False
  then show ?thesis
    unfolding create_def insert_comment_eq
    by (simp add: first_of_def created_row_fields Let_def split del: if_split cong: if_cong)
qed

lemma create_reply_notifies:
  assumes "par = Some q" "q \<noteq> 0" "find_first_comment s q = Some c"
    "comment_userId c \<noteq> []" "comment_userId c \<noteq> u"
  shows "create s u body p par =
    (Inr (comment_seq s),
     (with_comment s (created_row s u body p par))
       \<lparr>notifications := notifications s @
           [notification_for s u NEW_REPLY_TO_YOUR_COMMENT p (comment_userId c)],
        notification_seq := notification_seq s + 1\<rparr>)"
  using assms
  by (simp add: create_unfold truthy_number_def truthy_string_def find_with_comment
      insert_notification_with_comment)


lemma create_top_notifies:
  assumes "par = None \<or> par = Some 0" "find_first_post s p = Some po"
    "post_userId po \<noteq> []" "post_userId po \<noteq> u"
  shows "create s u body p par =
    (Inr (comment_seq s),
     (with_comment s (created_row s u body p par))
       \<lparr>notifications := notifications s @
           [notification_for s u NEW_COMMENT_ON_YOUR_POST p (post_userId po)],
        notification_seq := notification_seq s + 1\<rparr>)"
  using assms
  by (auto simp add: create_unfold truthy_number_def truthy_string_def
      insert_notification_with_comment)


lemma create_shape:
  "\<exists>s' ns. create s u body p par = (Inr (comment_seq s), s')
     \<and> comments s' = comments s @ [created_row s u body p par]
     \<and> notifications s' = notifications s @ ns \<and> length ns \<le> 1"
  by (simp add: create_unfold insert_notification_with_comment with_comment_tables Let_def)

text \<open>
  C2. The handler tests \<^verbatim>\<open>parentId\<close> and the looked-up owner ids by truthiness, so
  ``\<^verbatim>\<open>parentId\<close> is set'' is: present and not 0, and ``the author exists'' is: the
  lookup returns a row whose \<^verbatim>\<open>userId\<close> is a non-empty string. A call with a set
  \<^verbatim>\<open>parentId\<close> whose parent's author exists and is not the caller appends exactly one
  notification, of type \<^verbatim>\<open>NEW_REPLY_TO_YOUR_COMMENT\<close>, addressed to the parent's author.
  A call with an unset \<^verbatim>\<open>parentId\<close> (absent, or 0, which the test treats alike) whose
  post's author exists and is not the caller appends exactly one notification, of type
  \<^verbatim>\<open>NEW_COMMENT_ON_YOUR_POST\<close>, addressed to the post's author. In both the
  notification names the caller as notifier, the post and the new comment. No call
  appends more than one notification, and none removes or changes one.
\<close>

theorem create_notification_cases:
  "\<exists>i s'. create s caller body postId parentId = (Inr i, s')
     \<and> (\<forall>q c. parentId = Some q \<and> q \<noteq> 0 \<and> find_first_comment s q = Some c
            \<and> comment_userId c \<noteq> [] \<and> comment_userId c \<noteq> caller \<longrightarrow>
          (\<exists>n. notifications s' = notifications s @ [n]
             \<and> notification_type n = NEW_REPLY_TO_YOUR_COMMENT
             \<and> notification_userId n = comment_userId c
             \<and> notification_notifierId n = caller
             \<and> notification_postId n = postId
             \<and> notification_commentId n = i))
     \<and> (\<forall>po. (parentId = None \<or> parentId = Some 0) \<and> find_first_post s postId = Some po
            \<and> post_userId po \<noteq> [] \<and> post_userId po \<noteq> caller \<longrightarrow>
          (\<exists>n. notifications s' = notifications s @ [n]
             \<and> notification_type n = NEW_COMMENT_ON_YOUR_POST
             \<and> notification_userId n = post_userId po
             \<and> notification_notifierId n = caller
             \<and> notification_postId n = postId
             \<and> notification_commentId n = i))
     \<and> (\<exists>ns. notifications s' = notifications s @ ns \<and> length ns \<le> 1)"
proof -
  from create_shape [of s caller body postId parentId] obtain s' ns where
    c: "create s caller body postId parentId = (Inr (comment_seq s), s')"
    and n: "notifications s' = notifications s @ ns" "length ns \<le> 1"
    by blast
  have reply: "\<exists>n. notifications s' = notifications s @ [n]
             \<and> notification_type n = NEW_REPLY_TO_YOUR_COMMENT
             \<and> notification_userId n = comment_userId c
             \<and> notification_notifierId n = caller
             \<and> notification_postId n = postId
             \<and> notification_commentId n = comment_seq s"
    if "parentId = Some q" "q \<noteq> 0" "find_first_comment s q = Some c"
      "comment_userId c \<noteq> []" "comment_userId c \<noteq> caller" for q c
    using create_reply_notifies [OF that, of body postId] c
    by (auto simp add: notification_for_fields)
  have top: "\<exists>n. notifications s' = notifications s @ [n]
             \<and> notification_type n = NEW_COMMENT_ON_YOUR_POST
             \<and> notification_userId n = post_userId po
             \<and> notification_notifierId n = caller
             \<and> notification_postId n = postId
             \<and> notification_commentId n = comment_seq s"
    if "parentId = None \<or> parentId = Some 0" "find_first_post s postId = Some po"
      "post_userId po \<noteq> []" "post_userId po \<noteq> caller" for po
    using create_top_notifies [OF that, of body] c
    by (auto simp add: notification_for_fields)
  from reply have r: "\<forall>q c. parentId = Some q \<and> q \<noteq> 0 \<and> find_first_comment s q = Some c
            \<and> comment_userId c \<noteq> [] \<and> comment_userId c \<noteq> caller \<longrightarrow>
          (\<exists>n. notifications s' = notifications s @ [n]
             \<and> notification_type n = NEW_REPLY_TO_YOUR_COMMENT
             \<and> notification_userId n = comment_userId c
             \<and> notification_notifierId n = caller
             \<and> notification_postId n = postId
             \<and> notification_commentId n = comment_seq s)"
    by (intro allI impI) (elim conjE)
  from top have t: "\<forall>po. (parentId = None \<or> parentId = Some 0)
            \<and> find_first_post s postId = Some po
            \<and> post_userId po \<noteq> [] \<and> post_userId po \<noteq> caller \<longrightarrow>
          (\<exists>n. notifications s' = notifications s @ [n]
             \<and> notification_type n = NEW_COMMENT_ON_YOUR_POST
             \<and> notification_userId n = post_userId po
             \<and> notification_notifierId n = caller
             \<and> notification_postId n = postId
             \<and> notification_commentId n = comment_seq s)"
    by (intro allI impI) (elim conjE)
  from n have m: "\<exists>ns. notifications s' = notifications s @ ns \<and> length ns \<le> 1"
    by (intro exI [of _ ns] conjI)
  from c r t m show ?thesis
    by (intro exI [of _ "comment_seq s"] exI [of _ s'] conjI)
qed

theorem create_notification_cases_witness:
  "(\<exists>i s' n. create demo_db ''carol'' ''hello'' ''p1'' (Some 2) = (Inr i, s')
      \<and> notifications s' = [n]
      \<and> notification_type n = NEW_REPLY_TO_YOUR_COMMENT
      \<and> notification_userId n = ''bob''
      \<and> notification_commentId n = i)
   \<and> (\<exists>i s' n. create demo_db ''carol'' ''hello'' ''p1'' None = (Inr i, s')
      \<and> notifications s' = [n]
      \<and> notification_type n = NEW_COMMENT_ON_YOUR_POST
      \<and> notification_userId n = ''alice''
      \<and> notification_commentId n = i)"
proof (rule conjI)
  from create_notification_cases [of demo_db "''carol''" "''hello''" "''p1''" "Some 2"]
  obtain i s' where
    c: "create demo_db ''carol'' ''hello'' ''p1'' (Some 2) = (Inr i, s')"
    and r: "\<forall>q c. Some 2 = Some q \<and> q \<noteq> 0 \<and> find_first_comment demo_db q = Some c
            \<and> comment_userId c \<noteq> [] \<and> comment_userId c \<noteq> ''carol'' \<longrightarrow>
          (\<exists>n. notifications s' = notifications demo_db @ [n]
             \<and> notification_type n = NEW_REPLY_TO_YOUR_COMMENT
             \<and> notification_userId n = comment_userId c
             \<and> notification_notifierId n = ''carol''
             \<and> notification_postId n = ''p1''
             \<and> notification_commentId n = i)"
    by (elim exE conjE)
  have h: "Some 2 = Some (2::int) \<and> (2::int) \<noteq> 0 \<and> find_first_comment demo_db 2 = Some demo_c2
            \<and> comment_userId demo_c2 \<noteq> [] \<and> comment_userId demo_c2 \<noteq> ''carol''"
    by (simp add: demo_find_2) (simp add: demo_c2_def)
  from r [rule_format, OF h] obtain n where
    "notifications s' = notifications demo_db @ [n]"
    "notification_type n = NEW_REPLY_TO_YOUR_COMMENT"
    "notification_userId n = comment_userId demo_c2"
    "notification_commentId n = i"
    by (elim exE conjE)
  then have "notifications s' = [n] \<and> notification_type n = NEW_REPLY_TO_YOUR_COMMENT
      \<and> notification_userId n = ''bob'' \<and> notification_commentId n = i"
    by (simp add: demo_notifications demo_c2_def)
  with c show "\<exists>i s' n. create demo_db ''carol'' ''hello'' ''p1'' (Some 2) = (Inr i, s')
      \<and> notifications s' = [n]
      \<and> notification_type n = NEW_REPLY_TO_YOUR_COMMENT
      \<and> notification_userId n = ''bob''
      \<and> notification_commentId n = i"
    by (intro exI [of _ i] exI [of _ s'] exI [of _ n] conjI) simp_all
next
  from create_notification_cases [of demo_db "''carol''" "''hello''" "''p1''" None]
  obtain i s' where
    c: "create demo_db ''carol'' ''hello'' ''p1'' None = (Inr i, s')"
    and t: "\<forall>po. (None = (None :: int option) \<or> None = Some (0::int))
            \<and> find_first_post demo_db ''p1'' = Some po
            \<and> post_userId po \<noteq> [] \<and> post_userId po \<noteq> ''carol'' \<longrightarrow>
          (\<exists>n. notifications s' = notifications demo_db @ [n]
             \<and> notification_type n = NEW_COMMENT_ON_YOUR_POST
             \<and> notification_userId n = post_userId po
             \<and> notification_notifierId n = ''carol''
             \<and> notification_postId n = ''p1''
             \<and> notification_commentId n = i)"
    by (elim exE conjE)
  have h: "(None = (None :: int option) \<or> None = Some (0::int))
      \<and> find_first_post demo_db ''p1'' = Some \<lparr>post_id = ''p1'', post_userId = ''alice''\<rparr>
      \<and> post_userId \<lparr>post_id = ''p1'', post_userId = ''alice''\<rparr> \<noteq> []
      \<and> post_userId \<lparr>post_id = ''p1'', post_userId = ''alice''\<rparr> \<noteq> ''carol''"
    by (simp add: demo_find_post)
  from t [rule_format, OF h] obtain n where
    "notifications s' = notifications demo_db @ [n]"
    "notification_type n = NEW_COMMENT_ON_YOUR_POST"
    "notification_userId n = post_userId \<lparr>post_id = ''p1'', post_userId = ''alice''\<rparr>"
    "notification_commentId n = i"
    by (elim exE conjE)
  then have "notifications s' = [n] \<and> notification_type n = NEW_COMMENT_ON_YOUR_POST
      \<and> notification_userId n = ''alice'' \<and> notification_commentId n = i"
    by (simp add: demo_notifications)
  with c show "\<exists>i s' n. create demo_db ''carol'' ''hello'' ''p1'' None = (Inr i, s')
      \<and> notifications s' = [n]
      \<and> notification_type n = NEW_COMMENT_ON_YOUR_POST
      \<and> notification_userId n = ''alice''
      \<and> notification_commentId n = i"
    by (intro exI [of _ i] exI [of _ s'] exI [of _ n] conjI) simp_all
qed




end
